theory Spec2Isabelle
  imports Main
begin

section \<open>Numbers inside template strings\<close>

text \<open>
  The state manager builds widget ids and occupancy keys with template strings
  (\<^verbatim>\<open>`${type}-${counter}`\<close>, \<^verbatim>\<open>`${x}-${y}`\<close>).  Grid coordinates and counters are
  integers far below \<open>10^21\<close>, where JavaScript prints a number in plain decimal notation
  with a leading minus sign for negative values.
\<close>

definition decimalDigit :: "nat \<Rightarrow> char" where
  "decimalDigit d = ''0123456789'' ! d"

fun natToString :: "nat \<Rightarrow> string" where
  "natToString n =
     (if n < 10 then [decimalDigit n]
      else natToString (n div 10) @ [decimalDigit (n mod 10)])"

declare natToString.simps [simp del]

definition numToString :: "int \<Rightarrow> string" where
  "numToString i = (if i < 0 then CHR ''-'' # natToString (nat (- i)) else natToString (nat i))"

section \<open>Data model\<close>

type_synonym config = "(string \<times> string) list"

text \<open>
  A widget record of the canonical list.  The property \<open>config\<close> is absent when the
  caller of \<open>addWidget\<close> did not supply one, hence the option.
\<close>

record widget =
  wid :: string
  wtype :: string
  wx :: int
  wy :: int
  ww :: int
  wh :: int
  wminimized :: bool
  wconfig :: "config option"

record grid_settings =
  cols :: int
  rowHeight :: int
  gap :: int

record app_state =
  grid :: grid_settings
  widgets :: "widget list"
  theme :: string
  settings :: "(string \<times> bool) list"
  version :: string
  exportedAt :: "string option"

text \<open>
  The argument of \<open>addWidget\<close>: an object in which every property except \<open>type\<close> may be
  missing (\<open>None\<close>).
\<close>

record widget_data =
  did :: "string option"
  dtype :: string
  dx :: "int option"
  dy :: "int option"
  dw :: "int option"
  dh :: "int option"
  dminimized :: "bool option"
  dconfig :: "config option"

text \<open>
  The argument of \<open>updateWidget\<close>, \<open>moveWidget\<close> and \<open>resizeWidget\<close>: any subset of the
  keys of a widget record.
\<close>

record updates =
  uid :: "string option"
  utype :: "string option"
  ux :: "int option"
  uy :: "int option"
  uw :: "int option"
  uh :: "int option"
  uminimized :: "bool option"
  uconfig :: "config option"

text \<open>
  An element of the \<open>widgets\<close> array of an imported layout: a widget object whose \<open>id\<close>
  may be missing.
\<close>

record import_widget =
  iid :: "string option"
  itype :: string
  ix :: int
  iy :: int
  iw :: int
  ih :: int
  iminimized :: bool
  iconfig :: "config option"

text \<open>
  The property \<open>widgets\<close> of an imported layout is missing (or another falsy value), a
  value that is no array, or an array whose elements are widget objects or \<open>null\<close> /
  \<open>undefined\<close> (\<open>None\<close>).
\<close>

datatype widgets_field = Missing | NotArray string | WidgetArray "import_widget option list"

text \<open>What a \<open>catch\<close> block receives: an \<open>Error\<close> with its message, or a \<open>TypeError\<close>.\<close>

datatype js_error = Error string | TypeError

record layout_data =
  lgrid :: "grid_settings option"
  lwidgets :: widgets_field
  ltheme :: "string option"
  lsettings :: "(string \<times> bool) list option"
  lversion :: "string option"
  lexportedAt :: "string option"

datatype event =
    WidgetAdded widget
  | WidgetUpdated widget widget updates
  | WidgetRemoved widget
  | LayoutImported layout_data app_state
  | ImportError js_error
  | LayoutExported layout_data

text \<open>
  The state manager: the canonical state, the events emitted so far (oldest first), and
  what its subscribed listeners reach.  \<open>mounted\<close> holds the widget instances that the grid
  manager has mounted, by the \<open>data-widget-id\<close> of their element, each with its current
  config; \<open>stack\<close> is the number of further rounds of the listener chain of
  \<open>widget-updated\<close> (below) that the call stack admits.
\<close>

record state_manager =
  state :: app_state
  emitted :: "event list"
  mounted :: "(string \<times> config) list"
  stack :: nat

subsection \<open>The built-in default layout\<close>

definition defaultWidget :: "string \<Rightarrow> string \<Rightarrow> int \<Rightarrow> int \<Rightarrow> int \<Rightarrow> int \<Rightarrow> config \<Rightarrow> widget" where
  "defaultWidget i ty px py w h c =
     \<lparr>wid = i, wtype = ty, wx = px, wy = py, ww = w, wh = h, wminimized = False, wconfig = Some c\<rparr>"

definition getDefaultWidgets :: "widget list" where
  "getDefaultWidgets =
     [defaultWidget ''clock-1'' ''clock'' 0 0 3 2
        [(''title'', ''Clock''), (''format'', ''24h''), (''showAnalog'', ''false''),
         (''timezone'', ''local'')],
      defaultWidget ''weather-1'' ''weather'' 3 0 3 2
        [(''title'', ''Weather''), (''city'', ''New York''), (''units'', ''metric'')],
      defaultWidget ''pomodoro-1'' ''pomodoro'' 6 0 3 2
        [(''title'', ''Pomodoro''), (''workDuration'', ''25''), (''breakDuration'', ''5'')],
      defaultWidget ''todo-1'' ''todo'' 9 0 3 2 [(''title'', ''Todo List'')],
      defaultWidget ''calendar-1'' ''calendar'' 0 2 4 3 [(''title'', ''Calendar'')],
      defaultWidget ''notes-1'' ''notes'' 4 2 4 3 [(''title'', ''Notes'')],
      defaultWidget ''stocks-1'' ''stocks'' 8 2 4 3 [(''title'', ''Stocks''), (''symbol'', ''AAPL'')],
      defaultWidget ''links-1'' ''links'' 0 5 6 2 [(''title'', ''Quick Links'')],
      defaultWidget ''quotes-1'' ''quotes'' 6 5 3 2 [(''title'', ''Quotes'')],
      defaultWidget ''system-1'' ''system'' 9 5 3 2 [(''title'', ''System'')]]"

definition getDefaultState :: app_state where
  "getDefaultState =
     \<lparr>grid = \<lparr>cols = 12, rowHeight = 60, gap = 8\<rparr>,
      widgets = getDefaultWidgets,
      theme = ''system'',
      settings = [(''autoSave'', True), (''animations'', True), (''notifications'', True)],
      version = ''1.0.0'',
      exportedAt = None\<rparr>"

text \<open>
  A state manager that starts from the given state, with nothing emitted and no widget
  instance mounted yet.
\<close>

definition managerOf :: "app_state \<Rightarrow> state_manager" where
  "managerOf st = \<lparr>state = st, emitted = [], mounted = [], stack = 0\<rparr>"

text \<open>The default state with an empty widget list: an empty 12-column grid.\<close>

definition emptyGrid :: app_state where
  "emptyGrid = getDefaultState\<lparr>widgets := []\<rparr>"

section \<open>State manager\<close>

subsection \<open>emit and the subscribed listeners\<close>

fun findIndex :: "('a \<Rightarrow> bool) \<Rightarrow> 'a list \<Rightarrow> nat option" where
  "findIndex P [] = None"
| "findIndex P (a # as) =
     (if P a then Some 0 else (case findIndex P as of None \<Rightarrow> None | Some i \<Rightarrow> Some (Suc i)))"

text \<open>\<^verbatim>\<open>{ ...oldWidget, ...updates }\<close>: every key of the argument replaces the old value.\<close>

definition merge :: "widget \<Rightarrow> updates \<Rightarrow> widget" where
  "merge oldWidget u =
     oldWidget\<lparr>wid := (case uid u of None \<Rightarrow> wid oldWidget | Some v \<Rightarrow> v),
               wtype := (case utype u of None \<Rightarrow> wtype oldWidget | Some v \<Rightarrow> v),
               wx := (case ux u of None \<Rightarrow> wx oldWidget | Some v \<Rightarrow> v),
               wy := (case uy u of None \<Rightarrow> wy oldWidget | Some v \<Rightarrow> v),
               ww := (case uw u of None \<Rightarrow> ww oldWidget | Some v \<Rightarrow> v),
               wh := (case uh u of None \<Rightarrow> wh oldWidget | Some v \<Rightarrow> v),
               wminimized := (case uminimized u of None \<Rightarrow> wminimized oldWidget | Some v \<Rightarrow> v),
               wconfig := (case uconfig u of None \<Rightarrow> wconfig oldWidget | Some v \<Rightarrow> Some v)\<rparr>"

definition noUpdates :: updates where
  "noUpdates = \<lparr>uid = None, utype = None, ux = None, uy = None, uw = None, uh = None,
                uminimized = None, uconfig = None\<rparr>"

text \<open>
  Objects as association lists in key order: setting a key keeps its place or appends it,
  and \<^verbatim>\<open>{ ...config, ...newConfig }\<close> sets every key of \<open>newConfig\<close> in turn (a missing
  \<open>newConfig\<close> spreads to nothing).
\<close>

fun setKey :: "string \<Rightarrow> 'v \<Rightarrow> (string \<times> 'v) list \<Rightarrow> (string \<times> 'v) list" where
  "setKey k v [] = [(k, v)]"
| "setKey k v ((a, b) # ps) = (if a = k then (k, v) # ps else (a, b) # setKey k v ps)"

fun removeKey :: "string \<Rightarrow> (string \<times> 'v) list \<Rightarrow> (string \<times> 'v) list" where
  "removeKey k [] = []"
| "removeKey k ((a, b) # ps) = (if a = k then ps else (a, b) # removeKey k ps)"

definition spread :: "config \<Rightarrow> config option \<Rightarrow> config" where
  "spread config newConfig =
     (case newConfig of None \<Rightarrow> config | Some kvs \<Rightarrow> fold (\<lambda>kv. setKey (fst kv) (snd kv)) kvs config)"

definition logEvent :: "event \<Rightarrow> state_manager \<Rightarrow> state_manager" where
  "logEvent e sm = sm\<lparr>emitted := emitted sm @ [e]\<rparr>"

definition storeWidget :: "nat \<Rightarrow> widget \<Rightarrow> state_manager \<Rightarrow> state_manager" where
  "storeWidget widgetIndex widget sm =
     sm\<lparr>state := (state sm)\<lparr>widgets := (widgets (state sm))[widgetIndex := widget]\<rparr>\<rparr>"

text \<open>
  \<open>emit\<close> calls the listeners of the event and the wildcard listeners at once.  The
  wildcard listener of the constructor schedules the debounced save.  The grid manager
  listens to three events.  On \<open>widget-added\<close> it renders the element; the widget instance
  is attached later, when the asynchronous \<open>loadWidgetContent\<close> has imported the module.
  On \<open>widget-removed\<close> it destroys the instance (the element leaves the tree 300 ms later;
  the model unmounts at once).  On \<open>widget-updated\<close> it runs \<open>updateWidgetElement\<close>: it looks
  for the element of \<open>widget.id\<close> and, when an instance is mounted there, calls
  \<open>setConfig(widget.config)\<close>.  In every widget module \<open>setConfig\<close> assigns
  \<^verbatim>\<open>config = { ...config, ...newConfig }\<close> and dispatches \<open>widget-config-changed\<close> with the
  new config; the application's listener of that event calls
  \<^verbatim>\<open>state.updateWidget(widgetId, { config: newConfig })\<close>, which emits \<open>widget-updated\<close> again.
  \<open>configRound\<close> is one round of this chain, up to the nested \<open>emit\<close>.

  Nothing in the code ends the chain.  It ends when the call stack is exhausted: the
  \<open>RangeError\<close> arises inside a listener called by \<open>dispatchEvent\<close>, which reports it and
  returns, and all the callers return normally.  The first round runs on the shallow stack
  of an event handler and completes; \<open>stack\<close> counts the rounds after it.  All rounds
  store the same config, so the state does not depend on where the last one broke off.
\<close>

definition configRound :: "widget \<Rightarrow> state_manager \<Rightarrow> widget option \<times> state_manager" where
  "configRound widget sm =
     (case map_of (mounted sm) (wid widget) of
        None \<Rightarrow> (None, sm)
      | Some config \<Rightarrow>
          (let newConfig = spread config (wconfig widget);
               sm1 = sm\<lparr>mounted := setKey (wid widget) newConfig (mounted sm)\<rparr>;
               u = noUpdates\<lparr>uconfig := Some newConfig\<rparr>
           in case findIndex (\<lambda>wd. wid wd = wid widget) (widgets (state sm1)) of
                None \<Rightarrow> (None, sm1)
              | Some widgetIndex \<Rightarrow>
                  (let oldWidget = widgets (state sm1) ! widgetIndex;
                       updated = merge oldWidget u
                   in (Some updated,
                       logEvent (WidgetUpdated updated oldWidget u)
                         (storeWidget widgetIndex updated sm1)))))"

primrec notifyUpdated :: "nat \<Rightarrow> widget \<Rightarrow> state_manager \<Rightarrow> state_manager" where
  "notifyUpdated 0 widget sm = snd (configRound widget sm)"
| "notifyUpdated (Suc n) widget sm =
     (case configRound widget sm of
        (None, sm') \<Rightarrow> sm'
      | (Some updated, sm') \<Rightarrow> notifyUpdated n updated sm')"

definition emit :: "event \<Rightarrow> state_manager \<Rightarrow> state_manager" where
  "emit e sm =
     (case e of
        WidgetAdded widget \<Rightarrow> logEvent e sm
      | WidgetUpdated widget oldWidget u \<Rightarrow> notifyUpdated (stack sm) widget (logEvent e sm)
      | WidgetRemoved widget \<Rightarrow> (logEvent e sm)\<lparr>mounted := removeKey (wid widget) (mounted sm)\<rparr>
      | LayoutImported layout backup \<Rightarrow> logEvent e sm
      | ImportError err \<Rightarrow> logEvent e sm
      | LayoutExported layout \<Rightarrow> logEvent e sm)"

text \<open>
  \<open>loadWidgetContent\<close> once the module of the widget's type is imported:
  \<open>createWidget(widget.config)\<close> starts the instance with
  \<^verbatim>\<open>{ ...defaultConfig, ...initialConfig }\<close>, where \<open>defaultConfig\<close> is the module's own.
\<close>

definition loadWidgetContent :: "config \<Rightarrow> widget \<Rightarrow> state_manager \<Rightarrow> state_manager" where
  "loadWidgetContent defaultConfig widget sm =
     sm\<lparr>mounted := mounted sm @ [(wid widget, spread defaultConfig (wconfig widget))]\<rparr>"

text \<open>The \<open>defaultConfig\<close> of the clock module.\<close>

definition clockDefaultConfig :: config where
  "clockDefaultConfig =
     [(''title'', ''Clock''), (''format'', ''24h''), (''showAnalog'', ''false''),
      (''timezone'', ''local''), (''showDate'', ''true''), (''showSeconds'', ''true'')]"

subsection \<open>generateWidgetId\<close>

definition widgetIdOf :: "string \<Rightarrow> nat \<Rightarrow> string" where
  "widgetIdOf ty counter = ty @ ''-'' @ natToString counter"

lemma decimalDigit_inj: "a < 10 \<Longrightarrow> b < 10 \<Longrightarrow> decimalDigit a = decimalDigit b \<Longrightarrow> a = b"
proof -
  assume a: "a < 10" and b: "b < 10" and e: "decimalDigit a = decimalDigit b"
  have d: "distinct ''0123456789''" by simp
  have "length ''0123456789'' = 10" by simp
  with a b e d show "a = b"
    unfolding decimalDigit_def by (metis nth_eq_iff_index_eq)
qed

lemma natToString_nonempty: "natToString n \<noteq> []" "[] \<noteq> natToString n"
  by (subst natToString.simps, simp)+

lemma natToString_inj: "natToString n = natToString m \<Longrightarrow> n = m"
proof (induction n arbitrary: m rule: natToString.induct)
  case (1 n)
  show ?case
  proof (cases "n < 10")
    case small: True
    show ?thesis
    proof (cases "m < 10")
      case True
      with small "1.prems" show ?thesis
        by (simp add: natToString.simps [of n] natToString.simps [of m] decimalDigit_inj)
    next
      case False
      with small "1.prems" show ?thesis
        by (simp add: natToString.simps [of n] natToString.simps [of m] natToString_nonempty)
    qed
  next
    case big: False
    show ?thesis
    proof (cases "m < 10")
      case True
      with big "1.prems" show ?thesis
        by (simp add: natToString.simps [of n] natToString.simps [of m] natToString_nonempty)
    next
      case False
      with big "1.prems" have q: "natToString (n div 10) = natToString (m div 10)"
        and r: "decimalDigit (n mod 10) = decimalDigit (m mod 10)"
        by (simp_all add: natToString.simps [of n] natToString.simps [of m])
      from "1.IH" [OF big q] have "n div 10 = m div 10" .
      moreover from r have "n mod 10 = m mod 10"
        by (intro decimalDigit_inj) simp_all
      ultimately show ?thesis
        by (metis div_mult_mod_eq)
    qed
  qed
qed

lemma widgetIdOf_inj: "widgetIdOf ty a = widgetIdOf ty b \<Longrightarrow> a = b"
  by (simp add: widgetIdOf_def natToString_inj)

text \<open>
  The \<open>while\<close> loop of \<open>generateWidgetId\<close>.  It ends because the counter only grows and
  the finitely many existing ids hold only finitely many of the candidates.
\<close>

function generateLoop :: "string list \<Rightarrow> string \<Rightarrow> nat \<Rightarrow> string" where
  "generateLoop existingIds ty counter =
     (if widgetIdOf ty counter \<in> set existingIds
      then generateLoop existingIds ty (Suc counter)
      else widgetIdOf ty counter)"
  by pat_completeness auto
termination
proof (relation "measure (\<lambda>(ids, ty, c). card {k. c \<le> k \<and> widgetIdOf ty k \<in> set ids})")
  show "wf (measure (\<lambda>(ids, ty, c). card {k. c \<le> k \<and> widgetIdOf ty k \<in> set ids}))"
    by simp
next
  fix existingIds :: "string list" and ty :: string and counter :: nat
  assume hit: "widgetIdOf ty counter \<in> set existingIds"
  have "inj (widgetIdOf ty)"
    by (rule injI) (rule widgetIdOf_inj)
  then have "finite (widgetIdOf ty -` set existingIds)"
    by (intro finite_vimageI) simp_all
  then have fin: "finite {k. counter \<le> k \<and> widgetIdOf ty k \<in> set existingIds}"
    by (rule rev_finite_subset) auto
  have "{k. Suc counter \<le> k \<and> widgetIdOf ty k \<in> set existingIds}
          \<subset> {k. counter \<le> k \<and> widgetIdOf ty k \<in> set existingIds}"
  proof (rule psubsetI)
    show "{k. Suc counter \<le> k \<and> widgetIdOf ty k \<in> set existingIds}
            \<subseteq> {k. counter \<le> k \<and> widgetIdOf ty k \<in> set existingIds}"
      by auto
    have "counter \<in> {k. counter \<le> k \<and> widgetIdOf ty k \<in> set existingIds}"
      using hit by simp
    moreover have "counter \<notin> {k. Suc counter \<le> k \<and> widgetIdOf ty k \<in> set existingIds}"
      by simp
    ultimately show "{k. Suc counter \<le> k \<and> widgetIdOf ty k \<in> set existingIds}
            \<noteq> {k. counter \<le> k \<and> widgetIdOf ty k \<in> set existingIds}"
      by blast
  qed
  with fin have "card {k. Suc counter \<le> k \<and> widgetIdOf ty k \<in> set existingIds}
          < card {k. counter \<le> k \<and> widgetIdOf ty k \<in> set existingIds}"
    by (rule psubset_card_mono)
  then show "((existingIds, ty, Suc counter), (existingIds, ty, counter))
          \<in> measure (\<lambda>(ids, ty, c). card {k. c \<le> k \<and> widgetIdOf ty k \<in> set ids})"
    by simp
qed

declare generateLoop.simps [simp del]

definition generateWidgetId :: "app_state \<Rightarrow> string \<Rightarrow> string" where
  "generateWidgetId st ty = generateLoop (map wid (widgets st)) ty 1"

subsection \<open>findEmptyPosition\<close>

text \<open>
  The occupancy map is a \<open>Map\<close> from the key \<^verbatim>\<open>`${x}-${y}`\<close> to \<open>true\<close>; only \<open>has\<close> is
  asked of it, so the model keeps the keys, in insertion order.
\<close>

definition cellKey :: "int \<Rightarrow> int \<Rightarrow> string" where
  "cellKey cx cy = numToString cx @ ''-'' @ numToString cy"

definition widgetCells :: "widget \<Rightarrow> string list" where
  "widgetCells wd =
     concat (map (\<lambda>cx. map (\<lambda>cy. cellKey cx cy) [wy wd .. wy wd + wh wd - 1])
                 [wx wd .. wx wd + ww wd - 1])"

definition gridMapOf :: "widget list \<Rightarrow> string list" where
  "gridMapOf ws = concat (map widgetCells ws)"

text \<open>
  The two inner loops over \<open>dx\<close> and \<open>dy\<close>: \<open>canPlace\<close> ends \<open>true\<close> exactly when no tested
  key is in the map (the flag in the loop conditions only stops the loops early).
\<close>

definition canPlace :: "string list \<Rightarrow> int \<Rightarrow> int \<Rightarrow> int \<Rightarrow> int \<Rightarrow> bool" where
  "canPlace gridMap px py width height =
     list_all (\<lambda>dx. list_all (\<lambda>dy. cellKey (px + dx) (py + dy) \<notin> set gridMap) [0 .. height - 1])
              [0 .. width - 1]"

function scanColumns :: "string list \<Rightarrow> int \<Rightarrow> int \<Rightarrow> int \<Rightarrow> int \<Rightarrow> int \<Rightarrow> (int \<times> int) option" where
  "scanColumns gridMap c width height py px =
     (if px \<le> c - width
      then (if canPlace gridMap px py width height then Some (px, py)
            else scanColumns gridMap c width height py (px + 1))
      else None)"
  by pat_completeness auto
termination
  by (relation "measure (\<lambda>(gridMap, c, width, height, py, px). nat (c - width - px + 1))") auto

declare scanColumns.simps [simp del]

function scanRows :: "string list \<Rightarrow> int \<Rightarrow> int \<Rightarrow> int \<Rightarrow> int \<Rightarrow> (int \<times> int) option" where
  "scanRows gridMap c width height py =
     (if py < 100
      then (case scanColumns gridMap c width height py 0 of
              Some position \<Rightarrow> Some position
            | None \<Rightarrow> scanRows gridMap c width height (py + 1))
      else None)"
  by pat_completeness auto
termination
  by (relation "measure (\<lambda>(gridMap, c, width, height, py). nat (100 - py))") auto

declare scanRows.simps [simp del]

definition maxY :: "widget list \<Rightarrow> int" where
  "maxY ws = fold max (map (\<lambda>wd. wy wd + wh wd) ws) 0"

definition findEmptyPosition :: "app_state \<Rightarrow> int \<Rightarrow> int \<Rightarrow> int \<times> int" where
  "findEmptyPosition st width height =
     (case scanRows (gridMapOf (widgets st)) (cols (grid st)) width height 0 of
        Some position \<Rightarrow> position
      | None \<Rightarrow> (0, maxY (widgets st)))"

subsection \<open>addWidget\<close>

text \<open>
  \<^verbatim>\<open>v || d\<close> on a numeric property: a missing property and \<open>0\<close> are both falsy and give
  the default; \<^verbatim>\<open>!v\<close> is true for the same two.
\<close>

definition orDefault :: "int option \<Rightarrow> int \<Rightarrow> int" where
  "orDefault v d = (case v of None \<Rightarrow> d | Some n \<Rightarrow> if n = 0 then d else n)"

definition falsy :: "int option \<Rightarrow> bool" where
  "falsy v = (case v of None \<Rightarrow> True | Some n \<Rightarrow> n = 0)"

text \<open>
  The object literal of \<open>addWidget\<close>: the generated id comes before the spread of
  \<open>widgetData\<close>, so an id of the caller replaces it; \<open>x\<close>, \<open>y\<close>, \<open>w\<close>, \<open>h\<close> and \<open>minimized\<close>
  come after the spread.
\<close>

definition newWidget :: "app_state \<Rightarrow> widget_data \<Rightarrow> widget" where
  "newWidget st widgetData =
     \<lparr>wid = (case did widgetData of
               None \<Rightarrow> generateWidgetId st (dtype widgetData)
             | Some i \<Rightarrow> i),
      wtype = dtype widgetData,
      wx = orDefault (dx widgetData) 0,
      wy = orDefault (dy widgetData) 0,
      ww = orDefault (dw widgetData) 3,
      wh = orDefault (dh widgetData) 2,
      wminimized = False,
      wconfig = dconfig widgetData\<rparr>"

definition searches :: "widget_data \<Rightarrow> bool" where
  "searches widgetData = (falsy (dx widgetData) \<and> falsy (dy widgetData))"

definition placedWidget :: "app_state \<Rightarrow> widget_data \<Rightarrow> widget" where
  "placedWidget st widgetData =
     (let widget = newWidget st widgetData
      in if searches widgetData
         then (let position = findEmptyPosition st (ww widget) (wh widget)
               in widget\<lparr>wx := fst position, wy := snd position\<rparr>)
         else widget)"

definition pushWidget :: "widget \<Rightarrow> state_manager \<Rightarrow> state_manager" where
  "pushWidget widget sm = sm\<lparr>state := (state sm)\<lparr>widgets := widgets (state sm) @ [widget]\<rparr>\<rparr>"

definition addWidget :: "widget_data \<Rightarrow> state_manager \<Rightarrow> widget \<times> state_manager" where
  "addWidget widgetData sm =
     (let widget = placedWidget (state sm) widgetData
      in (widget, emit (WidgetAdded widget) (pushWidget widget sm)))"

subsection \<open>updateWidget, moveWidget, resizeWidget, removeWidget, duplicateWidget\<close>

definition updateWidget :: "string \<Rightarrow> updates \<Rightarrow> state_manager \<Rightarrow> bool \<times> state_manager" where
  "updateWidget widgetId u sm =
     (case findIndex (\<lambda>wd. wid wd = widgetId) (widgets (state sm)) of
        None \<Rightarrow> (False, sm)
      | Some widgetIndex \<Rightarrow>
          (let oldWidget = widgets (state sm) ! widgetIndex;
               widget = merge oldWidget u
           in (True,
               emit (WidgetUpdated widget oldWidget u) (storeWidget widgetIndex widget sm))))"

definition moveWidget :: "string \<Rightarrow> updates \<Rightarrow> state_manager \<Rightarrow> bool \<times> state_manager" where
  "moveWidget widgetId position sm = updateWidget widgetId position sm"

definition resizeWidget :: "string \<Rightarrow> updates \<Rightarrow> state_manager \<Rightarrow> bool \<times> state_manager" where
  "resizeWidget widgetId newSize sm = updateWidget widgetId newSize sm"

definition removeWidget :: "string \<Rightarrow> state_manager \<Rightarrow> bool \<times> state_manager" where
  "removeWidget widgetId sm =
     (case findIndex (\<lambda>wd. wid wd = widgetId) (widgets (state sm)) of
        None \<Rightarrow> (False, sm)
      | Some widgetIndex \<Rightarrow>
          (let widget = widgets (state sm) ! widgetIndex
           in (True,
               emit (WidgetRemoved widget)
                 (sm\<lparr>state := (state sm)\<lparr>widgets :=
                    take widgetIndex (widgets (state sm)) @ drop (Suc widgetIndex) (widgets (state sm))\<rparr>\<rparr>))))"

definition duplicateWidget :: "string \<Rightarrow> state_manager \<Rightarrow> widget option \<times> state_manager" where
  "duplicateWidget widgetId sm =
     (case find (\<lambda>wd. wid wd = widgetId) (widgets (state sm)) of
        None \<Rightarrow> (None, sm)
      | Some widget \<Rightarrow>
          (let duplicate0 = widget\<lparr>wid := generateWidgetId (state sm) (wtype widget),
                                   wx := wx widget + ww widget,
                                   wy := wy widget\<rparr>;
               duplicate =
                 (if wx duplicate0 + ww duplicate0 > cols (grid (state sm))
                  then (let position = findEmptyPosition (state sm) (ww duplicate0) (wh duplicate0)
                        in duplicate0\<lparr>wx := fst position, wy := snd position\<rparr>)
                  else duplicate0)
           in (Some duplicate, emit (WidgetAdded duplicate) (pushWidget duplicate sm))))"

subsection \<open>importLayout and exportLayout\<close>

definition invalidLayout :: js_error where
  "invalidLayout = Error ''Invalid layout data: missing widgets array''"

text \<open>
  \<^verbatim>\<open>widget.id || this.generateWidgetId(widget.type)\<close>: a missing id and the empty string
  are falsy.  The ids are generated while \<open>this.state\<close> is still the state before the
  import.
\<close>

definition backfill :: "app_state \<Rightarrow> import_widget \<Rightarrow> widget" where
  "backfill st widget =
     \<lparr>wid = (case iid widget of
               None \<Rightarrow> generateWidgetId st (itype widget)
             | Some i \<Rightarrow> if i = [] then generateWidgetId st (itype widget) else i),
      wtype = itype widget, wx = ix widget, wy = iy widget, ww = iw widget, wh = ih widget,
      wminimized = iminimized widget, wconfig = iconfig widget\<rparr>"

definition orKeep :: "'a option \<Rightarrow> 'a \<Rightarrow> 'a" where
  "orKeep v old = (case v of None \<Rightarrow> old | Some new \<Rightarrow> new)"

text \<open>
  The callback of \<open>map\<close> reads \<open>widget.id\<close>; on an element that is \<open>null\<close> or \<open>undefined\<close>
  this throws a \<open>TypeError\<close> before \<open>this.state\<close> is assigned, and the \<open>catch\<close> block takes
  over.  \<open>those\<close> is the list of the elements when none of them is \<open>None\<close>.
\<close>

definition importLayout :: "layout_data \<Rightarrow> state_manager \<Rightarrow> bool \<times> state_manager" where
  "importLayout layoutData sm =
     (case lwidgets layoutData of
        Missing \<Rightarrow> (False, emit (ImportError invalidLayout) sm)
      | NotArray v \<Rightarrow> (False, emit (ImportError invalidLayout) sm)
      | WidgetArray arr \<Rightarrow>
          (case those arr of
             None \<Rightarrow> (False, emit (ImportError TypeError) sm)
           | Some objects \<Rightarrow>
          (let backup = state sm;
               imported =
                 \<lparr>grid = orKeep (lgrid layoutData) (grid backup),
                  widgets = map (backfill backup) objects,
                  theme = orKeep (ltheme layoutData) (theme backup),
                  settings = orKeep (lsettings layoutData) (settings backup),
                  version = orKeep (lversion layoutData) (version backup),
                  exportedAt = (case lexportedAt layoutData of
                                  None \<Rightarrow> exportedAt backup
                                | Some t \<Rightarrow> Some t)\<rparr>
           in (True, emit (LayoutImported layoutData backup) (sm\<lparr>state := imported\<rparr>)))))"

definition asJson :: "widget \<Rightarrow> import_widget" where
  "asJson wd =
     \<lparr>iid = Some (wid wd), itype = wtype wd, ix = wx wd, iy = wy wd, iw = ww wd, ih = wh wd,
      iminimized = wminimized wd, iconfig = wconfig wd\<rparr>"

text \<open>\<open>now\<close> is the time stamp \<^verbatim>\<open>new Date().toISOString()\<close>.\<close>

definition exportLayout :: "string \<Rightarrow> state_manager \<Rightarrow> layout_data \<times> state_manager" where
  "exportLayout now sm =
     (let layout =
            \<lparr>lgrid = Some (grid (state sm)),
             lwidgets = WidgetArray (map (\<lambda>wd. Some (asJson wd)) (widgets (state sm))),
             ltheme = Some (theme (state sm)),
             lsettings = Some (settings (state sm)),
             lversion = Some (version (state sm)),
             lexportedAt = Some now\<rparr>
      in (layout, emit (LayoutExported layout) sm))"

section \<open>Grid manager\<close>

record rect =
  rx :: int
  ry :: int
  rw :: int
  rh :: int

definition rectOf :: "widget \<Rightarrow> rect" where
  "rectOf wd = \<lparr>rx = wx wd, ry = wy wd, rw = ww wd, rh = wh wd\<rparr>"

datatype handle =
  HandleN | HandleE | HandleS | HandleW | HandleNW | HandleNE | HandleSW | HandleSE

record drag_data =
  ddWidgetId :: string
  ddWidget :: widget
  ddOriginalPosition :: "int \<times> int"

text \<open>
  \<open>rdElement\<close> is the inline grid placement of the widget's element: the four numbers that
  \<open>updateWidgetPosition\<close> and \<open>previewResize\<close> wrote last, from which the style strings are
  built.
\<close>

record resize_data =
  rdWidgetId :: string
  rdWidget :: widget
  rdHandle :: handle
  rdOriginalSize :: "int \<times> int"
  rdOriginalPosition :: "int \<times> int"
  rdElement :: rect

record grid_manager =
  sm :: state_manager
  gridSettings :: grid_settings
  isDragging :: bool
  isResizing :: bool
  dragData :: "drag_data option"
  resizeData :: "resize_data option"
  dragGhost :: "rect option"

text \<open>
  The constructor: idle, and \<open>updateGridSettings\<close> has copied the grid settings of the
  state.
\<close>

definition newGridManager :: "state_manager \<Rightarrow> grid_manager" where
  "newGridManager s =
     \<lparr>sm = s, gridSettings = grid (state s), isDragging = False, isResizing = False,
      dragData = None, resizeData = None, dragGhost = None\<rparr>"

subsection \<open>rectsIntersect, validatePosition, validateResize\<close>

definition rectsIntersect :: "int \<Rightarrow> int \<Rightarrow> int \<Rightarrow> int \<Rightarrow> int \<Rightarrow> int \<Rightarrow> int \<Rightarrow> int \<Rightarrow> bool" where
  "rectsIntersect x1 y1 w1 h1 x2 y2 w2 h2 =
     (\<not> (x1 + w1 \<le> x2 \<or> x2 + w2 \<le> x1 \<or> y1 + h1 \<le> y2 \<or> y2 + h2 \<le> y1))"

definition hasCollision :: "widget list \<Rightarrow> int \<Rightarrow> int \<Rightarrow> int \<Rightarrow> int \<Rightarrow> bool" where
  "hasCollision ws px py w h =
     list_ex (\<lambda>wd. rectsIntersect px py w h (wx wd) (wy wd) (ww wd) (wh wd)) ws"

definition maxAttempts :: nat where
  "maxAttempts = 100"

function pushDown :: "widget list \<Rightarrow> int \<Rightarrow> int \<Rightarrow> int \<Rightarrow> int \<Rightarrow> nat \<Rightarrow> int \<times> int" where
  "pushDown ws w h px py attempts =
     (if attempts < maxAttempts
      then (if \<not> hasCollision ws px py w h then (px, py)
            else pushDown ws w h px (py + 1) (Suc attempts))
      else (px, py))"
  by pat_completeness auto
termination
  by (relation "measure (\<lambda>(ws, w, h, px, py, attempts). maxAttempts - attempts)") auto

declare pushDown.simps [simp del]

definition validatePosition ::
    "grid_manager \<Rightarrow> int \<Rightarrow> int \<Rightarrow> int \<Rightarrow> int \<Rightarrow> string option \<Rightarrow> int \<times> int" where
  "validatePosition gm x0 y0 w h excludeId =
     (let px = max 0 (min x0 (cols (gridSettings gm) - w));
          py = max 0 y0;
          ws = filter (\<lambda>wd. Some (wid wd) \<noteq> excludeId) (widgets (state (sm gm)))
      in pushDown ws w h px py 0)"

definition validateResize ::
    "grid_manager \<Rightarrow> int \<Rightarrow> int \<Rightarrow> int \<Rightarrow> int \<Rightarrow> string option \<Rightarrow> rect" where
  "validateResize gm x0 y0 w0 h0 excludeId =
     (let w = max 1 w0;
          h = max 1 h0;
          px = max 0 (min x0 (cols (gridSettings gm) - w));
          py = max 0 y0
      in \<lparr>rx = px, ry = py, rw = w, rh = h\<rparr>)"

subsection \<open>Dragging\<close>

text \<open>
  A pointer event enters the model as the grid cell that \<open>screenToGrid\<close> computes from it
  (for a drag) or as the pair of rounded cell deltas (for a resize); the pixel arithmetic
  is outside the model.
\<close>

definition startDrag :: "string \<Rightarrow> grid_manager \<Rightarrow> grid_manager" where
  "startDrag widgetId gm =
     (case find (\<lambda>wd. wid wd = widgetId) (widgets (state (sm gm))) of
        None \<Rightarrow> gm
      | Some widgetData \<Rightarrow>
          gm\<lparr>isDragging := True,
             dragData := Some \<lparr>ddWidgetId = widgetId, ddWidget = widgetData,
                               ddOriginalPosition = (wx widgetData, wy widgetData)\<rparr>,
             dragGhost := Some (rectOf widgetData)\<rparr>)"

definition updateDrag :: "int \<times> int \<Rightarrow> grid_manager \<Rightarrow> grid_manager" where
  "updateDrag gridPos gm =
     (case dragData gm of
        None \<Rightarrow> gm
      | Some dd \<Rightarrow>
          (let validatedPos = validatePosition gm (fst gridPos) (snd gridPos)
                                (ww (ddWidget dd)) (wh (ddWidget dd)) (Some (ddWidgetId dd))
           in gm\<lparr>dragGhost := Some \<lparr>rx = fst validatedPos, ry = snd validatedPos,
                                     rw = ww (ddWidget dd), rh = wh (ddWidget dd)\<rparr>\<rparr>))"

definition positionUpdate :: "int \<times> int \<Rightarrow> updates" where
  "positionUpdate pos = noUpdates\<lparr>ux := Some (fst pos), uy := Some (snd pos)\<rparr>"

definition endDrag :: "int \<times> int \<Rightarrow> grid_manager \<Rightarrow> grid_manager" where
  "endDrag gridPos gm =
     (case dragData gm of
        None \<Rightarrow> gm
      | Some dd \<Rightarrow>
          (let finalPos = validatePosition gm (fst gridPos) (snd gridPos)
                            (ww (ddWidget dd)) (wh (ddWidget dd)) (Some (ddWidgetId dd));
               originalPosition = ddOriginalPosition dd;
               committed =
                 (if fst finalPos \<noteq> fst originalPosition \<or> snd finalPos \<noteq> snd originalPosition
                  then snd (moveWidget (ddWidgetId dd) (positionUpdate finalPos) (sm gm))
                  else sm gm)
           in gm\<lparr>sm := committed, dragGhost := None, isDragging := False, dragData := None\<rparr>))"

subsection \<open>Resizing\<close>

definition startResize :: "string \<Rightarrow> handle \<Rightarrow> grid_manager \<Rightarrow> grid_manager" where
  "startResize widgetId hdl gm =
     (case find (\<lambda>wd. wid wd = widgetId) (widgets (state (sm gm))) of
        None \<Rightarrow> gm
      | Some widgetData \<Rightarrow>
          gm\<lparr>isResizing := True,
             resizeData := Some \<lparr>rdWidgetId = widgetId, rdWidget = widgetData, rdHandle = hdl,
                                 rdOriginalSize = (ww widgetData, wh widgetData),
                                 rdOriginalPosition = (wx widgetData, wy widgetData),
                                 rdElement = rectOf widgetData\<rparr>\<rparr>)"

text \<open>
  The \<open>switch\<close> of \<open>updateResize\<close>: the new position and size for a handle and the cell
  deltas, before validation.
\<close>

fun resizeBy :: "handle \<Rightarrow> int \<times> int \<Rightarrow> int \<times> int \<Rightarrow> int \<Rightarrow> int \<Rightarrow> rect" where
  "resizeBy HandleE (ow, oh) (ox, oy) deltaGridX deltaGridY =
     \<lparr>rx = ox, ry = oy, rw = max 1 (ow + deltaGridX), rh = oh\<rparr>"
| "resizeBy HandleW (ow, oh) (ox, oy) deltaGridX deltaGridY =
     \<lparr>rx = max 0 (ox + deltaGridX), ry = oy, rw = max 1 (ow - deltaGridX), rh = oh\<rparr>"
| "resizeBy HandleS (ow, oh) (ox, oy) deltaGridX deltaGridY =
     \<lparr>rx = ox, ry = oy, rw = ow, rh = max 1 (oh + deltaGridY)\<rparr>"
| "resizeBy HandleN (ow, oh) (ox, oy) deltaGridX deltaGridY =
     \<lparr>rx = ox, ry = max 0 (oy + deltaGridY), rw = ow, rh = max 1 (oh - deltaGridY)\<rparr>"
| "resizeBy HandleSE (ow, oh) (ox, oy) deltaGridX deltaGridY =
     \<lparr>rx = ox, ry = oy, rw = max 1 (ow + deltaGridX), rh = max 1 (oh + deltaGridY)\<rparr>"
| "resizeBy HandleSW (ow, oh) (ox, oy) deltaGridX deltaGridY =
     \<lparr>rx = max 0 (ox + deltaGridX), ry = oy,
      rw = max 1 (ow - deltaGridX), rh = max 1 (oh + deltaGridY)\<rparr>"
| "resizeBy HandleNE (ow, oh) (ox, oy) deltaGridX deltaGridY =
     \<lparr>rx = ox, ry = max 0 (oy + deltaGridY),
      rw = max 1 (ow + deltaGridX), rh = max 1 (oh - deltaGridY)\<rparr>"
| "resizeBy HandleNW (ow, oh) (ox, oy) deltaGridX deltaGridY =
     \<lparr>rx = max 0 (ox + deltaGridX), ry = max 0 (oy + deltaGridY),
      rw = max 1 (ow - deltaGridX), rh = max 1 (oh - deltaGridY)\<rparr>"

definition resizePreview :: "grid_manager \<Rightarrow> resize_data \<Rightarrow> int \<Rightarrow> int \<Rightarrow> rect" where
  "resizePreview gm rd deltaGridX deltaGridY =
     (let new = resizeBy (rdHandle rd) (rdOriginalSize rd) (rdOriginalPosition rd)
                  deltaGridX deltaGridY
      in validateResize gm (rx new) (ry new) (rw new) (rh new) (Some (rdWidgetId rd)))"

definition updateResize :: "int \<Rightarrow> int \<Rightarrow> grid_manager \<Rightarrow> grid_manager" where
  "updateResize deltaGridX deltaGridY gm =
     (case resizeData gm of
        None \<Rightarrow> gm
      | Some rd \<Rightarrow>
          gm\<lparr>resizeData := Some (rd\<lparr>rdElement := resizePreview gm rd deltaGridX deltaGridY\<rparr>)\<rparr>)"

definition rectUpdate :: "rect \<Rightarrow> updates" where
  "rectUpdate r = noUpdates\<lparr>ux := Some (rx r), uy := Some (ry r), uw := Some (rw r), uh := Some (rh r)\<rparr>"

text \<open>
  \<open>endResize\<close> reads the final geometry back from the rendered element:
  \<^verbatim>\<open>parseInt\<close> of the computed \<open>gridColumnStart\<close>, \<open>gridColumnEnd\<close>, \<open>gridRowStart\<close> and
  \<open>gridRowEnd\<close>.  The element's placement was written as
  \<^verbatim>\<open>gridColumn = `${x + 1} / span ${w}`\<close> (and likewise for the row), a shorthand whose two
  parts are the start line and the end line; so the computed start is the text of \<open>x + 1\<close>
  and the computed end is \<^verbatim>\<open>span \<close> followed by the text of \<open>w\<close>.
\<close>

definition gridLineStart :: "int \<Rightarrow> string" where
  "gridLineStart p = numToString (p + 1)"

definition gridLineEnd :: "int \<Rightarrow> string" where
  "gridLineEnd n = ''span '' @ numToString n"

text \<open>
  \<open>parseInt\<close> without radix on the strings that occur here: leading blanks are skipped, a
  sign is read, then the longest run of decimal digits; without a digit the result is
  \<open>NaN\<close>, written \<open>None\<close>.  Arithmetic with \<open>NaN\<close> gives \<open>NaN\<close>, and \<open>NaN\<close> is \<open>!==\<close> to
  everything.
\<close>

definition isDigit :: "char \<Rightarrow> bool" where
  "isDigit c = (c \<in> set ''0123456789'')"

definition digitsValue :: "string \<Rightarrow> nat" where
  "digitsValue ds =
     foldl (\<lambda>acc c. case findIndex (\<lambda>d. d = c) ''0123456789'' of
                       None \<Rightarrow> acc
                     | Some d \<Rightarrow> 10 * acc + d) 0 ds"

definition parseInt :: "string \<Rightarrow> int option" where
  "parseInt str =
     (let trimmed = dropWhile (\<lambda>c. c = CHR '' '') str;
          negative = (case trimmed of [] \<Rightarrow> False | c # cs \<Rightarrow> c = CHR ''-'');
          unsigned = (case trimmed of
                        [] \<Rightarrow> []
                      | c # cs \<Rightarrow> if c = CHR ''-'' \<or> c = CHR ''+'' then cs else trimmed);
          ds = takeWhile isDigit unsigned
      in if ds = [] then None
         else Some (if negative then - int (digitsValue ds) else int (digitsValue ds)))"

definition jsMinus :: "int option \<Rightarrow> int option \<Rightarrow> int option" where
  "jsMinus a b = (case a of None \<Rightarrow> None | Some m \<Rightarrow> (case b of None \<Rightarrow> None | Some n \<Rightarrow> Some (m - n)))"

text \<open>
  A widget record holds integers.  When \<open>endResize\<close> calls \<open>state.updateWidget\<close> for a widget
  of the list with a geometry that holds \<open>NaN\<close>, the record leaves the data model; the model
  stops there and returns the call that was made.
\<close>

datatype fault = StoresNaN string "int option" "int option" "int option" "int option"

definition endResize :: "grid_manager \<Rightarrow> fault + grid_manager" where
  "endResize gm =
     (case resizeData gm of
        None \<Rightarrow> Inr gm
      | Some rd \<Rightarrow>
          (let gridColumn = parseInt (gridLineStart (rx (rdElement rd)));
               gridRow = parseInt (gridLineStart (ry (rdElement rd)));
               gridColumnEnd = parseInt (gridLineEnd (rw (rdElement rd)));
               gridRowEnd = parseInt (gridLineEnd (rh (rdElement rd)));
               finalX = jsMinus gridColumn (Some 1);
               finalY = jsMinus gridRow (Some 1);
               finalW = jsMinus gridColumnEnd gridColumn;
               finalH = jsMinus gridRowEnd gridRow;
               hasChanged = (finalX \<noteq> Some (fst (rdOriginalPosition rd)) \<or>
                             finalY \<noteq> Some (snd (rdOriginalPosition rd)) \<or>
                             finalW \<noteq> Some (fst (rdOriginalSize rd)) \<or>
                             finalH \<noteq> Some (snd (rdOriginalSize rd)));
               cleared = gm\<lparr>isResizing := False, resizeData := None\<rparr>
           in if \<not> hasChanged then Inr cleared
              else (case (finalX, finalY, finalW, finalH) of
                      (Some px, Some py, Some w, Some h) \<Rightarrow>
                        Inr (cleared\<lparr>sm := snd (updateWidget (rdWidgetId rd)
                                     (rectUpdate \<lparr>rx = px, ry = py, rw = w, rh = h\<rparr>) (sm gm))\<rparr>)
                    | _ \<Rightarrow>
                        (case findIndex (\<lambda>wd. wid wd = rdWidgetId rd) (widgets (state (sm gm))) of
                           None \<Rightarrow> Inr cleared
                         | Some widgetIndex \<Rightarrow>
                             Inl (StoresNaN (rdWidgetId rd) finalX finalY finalW finalH)))))"

subsection \<open>Pointer events\<close>

datatype pointer_target = OnResizeHandle string handle | OnHeader string | Elsewhere

definition handlePointerDown :: "pointer_target \<Rightarrow> grid_manager \<Rightarrow> grid_manager" where
  "handlePointerDown target gm =
     (if isDragging gm \<or> isResizing gm then gm
      else (case target of
              OnResizeHandle widgetId hdl \<Rightarrow> startResize widgetId hdl gm
            | OnHeader widgetId \<Rightarrow> startDrag widgetId gm
            | Elsewhere \<Rightarrow> gm))"

text \<open>
  A pointer move carries the grid cell under the dragged element and the cell deltas since
  the press; a pointer up carries the grid cell.
\<close>

definition handlePointerMove :: "int \<times> int \<Rightarrow> int \<times> int \<Rightarrow> grid_manager \<Rightarrow> grid_manager" where
  "handlePointerMove gridPos delta gm =
     (if isDragging gm then updateDrag gridPos gm
      else if isResizing gm then updateResize (fst delta) (snd delta) gm
      else gm)"

definition handlePointerUp :: "int \<times> int \<Rightarrow> grid_manager \<Rightarrow> fault + grid_manager" where
  "handlePointerUp gridPos gm =
     (if isDragging gm then Inr (endDrag gridPos gm)
      else if isResizing gm then endResize gm
      else Inr gm)"

subsection \<open>Keyboard\<close>

datatype key = ArrowLeft | ArrowRight | ArrowUp | ArrowDown | Delete | Backspace | OtherKey

record key_event =
  key :: key
  ctrlKey :: bool
  metaKey :: bool
  shiftKey :: bool

text \<open>
  The \<open>keydown\<close> listener: \<open>active\<close> is the id of the widget element that holds the focus,
  if any.  The step is \<open>1\<close> with and without the shift key.
\<close>

definition handleKeydown :: "string option \<Rightarrow> key_event \<Rightarrow> grid_manager \<Rightarrow> grid_manager" where
  "handleKeydown active e gm =
     (case active of
        None \<Rightarrow> gm
      | Some widgetId \<Rightarrow>
          (case find (\<lambda>wd. wid wd = widgetId) (widgets (state (sm gm))) of
             None \<Rightarrow> gm
           | Some widget \<Rightarrow>
               (let step = 1;
                    modifier = (ctrlKey e \<or> metaKey e);
                    c = cols (gridSettings gm)
                in case key e of
                     ArrowLeft \<Rightarrow>
                       (if modifier
                        then (if ww widget > 1
                              then gm\<lparr>sm := snd (resizeWidget widgetId
                                        (noUpdates\<lparr>uw := Some (ww widget - step)\<rparr>) (sm gm))\<rparr>
                              else gm)
                        else (if wx widget > 0
                              then gm\<lparr>sm := snd (moveWidget widgetId
                                        (noUpdates\<lparr>ux := Some (wx widget - step)\<rparr>) (sm gm))\<rparr>
                              else gm))
                   | ArrowRight \<Rightarrow>
                       (if modifier
                        then (if wx widget + ww widget + step \<le> c
                              then gm\<lparr>sm := snd (resizeWidget widgetId
                                        (noUpdates\<lparr>uw := Some (ww widget + step)\<rparr>) (sm gm))\<rparr>
                              else gm)
                        else (if wx widget + ww widget < c
                              then gm\<lparr>sm := snd (moveWidget widgetId
                                        (noUpdates\<lparr>ux := Some (wx widget + step)\<rparr>) (sm gm))\<rparr>
                              else gm))
                   | ArrowUp \<Rightarrow>
                       (if modifier
                        then (if wh widget > 1
                              then gm\<lparr>sm := snd (resizeWidget widgetId
                                        (noUpdates\<lparr>uh := Some (wh widget - step)\<rparr>) (sm gm))\<rparr>
                              else gm)
                        else (if wy widget > 0
                              then gm\<lparr>sm := snd (moveWidget widgetId
                                        (noUpdates\<lparr>uy := Some (wy widget - step)\<rparr>) (sm gm))\<rparr>
                              else gm))
                   | ArrowDown \<Rightarrow>
                       (if modifier
                        then gm\<lparr>sm := snd (resizeWidget widgetId
                                  (noUpdates\<lparr>uh := Some (wh widget + step)\<rparr>) (sm gm))\<rparr>
                        else gm\<lparr>sm := snd (moveWidget widgetId
                                  (noUpdates\<lparr>uy := Some (wy widget + step)\<rparr>) (sm gm))\<rparr>)
                   | Delete \<Rightarrow>
                       (if shiftKey e then gm\<lparr>sm := snd (removeWidget widgetId (sm gm))\<rparr> else gm)
                   | Backspace \<Rightarrow>
                       (if shiftKey e then gm\<lparr>sm := snd (removeWidget widgetId (sm gm))\<rparr> else gm)
                   | OtherKey \<Rightarrow> gm)))"

section \<open>Gestures\<close>

text \<open>
  A gesture is a pointer down, a path of pointer moves and a pointer up.  \<open>act\<close> runs one
  user action on the grid manager; \<open>Update\<close> stands for \<open>updateWidget\<close>, \<open>moveWidget\<close> and
  \<open>resizeWidget\<close> alike.
\<close>

definition dragGesture ::
    "string \<Rightarrow> ((int \<times> int) \<times> (int \<times> int)) list \<Rightarrow> int \<times> int \<Rightarrow> grid_manager
       \<Rightarrow> fault + grid_manager" where
  "dragGesture widgetId path up gm =
     handlePointerUp up
       (fold (\<lambda>move. handlePointerMove (fst move) (snd move)) path
          (handlePointerDown (OnHeader widgetId) gm))"

definition resizeGesture ::
    "string \<Rightarrow> handle \<Rightarrow> ((int \<times> int) \<times> (int \<times> int)) list \<Rightarrow> int \<times> int \<Rightarrow> grid_manager
       \<Rightarrow> fault + grid_manager" where
  "resizeGesture widgetId hdl path up gm =
     handlePointerUp up
       (fold (\<lambda>move. handlePointerMove (fst move) (snd move)) path
          (handlePointerDown (OnResizeHandle widgetId hdl) gm))"

datatype action =
    Add widget_data
  | Duplicate string
  | Remove string
  | Update string updates
  | Drag string "((int \<times> int) \<times> (int \<times> int)) list" "int \<times> int"
  | Resize string handle "((int \<times> int) \<times> (int \<times> int)) list" "int \<times> int"
  | KeyDown "string option" key_event

fun act :: "action \<Rightarrow> grid_manager \<Rightarrow> fault + grid_manager" where
  "act (Add widgetData) gm = Inr (gm\<lparr>sm := snd (addWidget widgetData (sm gm))\<rparr>)"
| "act (Duplicate widgetId) gm = Inr (gm\<lparr>sm := snd (duplicateWidget widgetId (sm gm))\<rparr>)"
| "act (Remove widgetId) gm = Inr (gm\<lparr>sm := snd (removeWidget widgetId (sm gm))\<rparr>)"
| "act (Update widgetId u) gm = Inr (gm\<lparr>sm := snd (updateWidget widgetId u (sm gm))\<rparr>)"
| "act (Drag widgetId path up) gm = dragGesture widgetId path up gm"
| "act (Resize widgetId hdl path up) gm = resizeGesture widgetId hdl path up gm"
| "act (KeyDown active e) gm = Inr (handleKeydown active e gm)"

text \<open>The rectangles of the widget list after an action.\<close>

definition rectsAfter :: "fault + grid_manager \<Rightarrow> fault + rect list" where
  "rectsAfter outcome = map_sum id (\<lambda>gm. map rectOf (widgets (state (sm gm)))) outcome"

definition onlyType :: "string \<Rightarrow> widget_data" where
  "onlyType ty = \<lparr>did = None, dtype = ty, dx = None, dy = None, dw = None, dh = None,
                  dminimized = None, dconfig = None\<rparr>"

text \<open>
  Two widgets of the default size auto-placed on the empty 12-column grid, \<open>a-1\<close> at
  \<open>(0, 0)\<close> and \<open>a-2\<close> at \<open>(3, 0)\<close>.
\<close>

definition twoWidgets :: state_manager where
  "twoWidgets = snd (addWidget (onlyType ''a'') (snd (addWidget (onlyType ''a'') (managerOf emptyGrid))))"

section \<open>Lists and indices\<close>

lemma findIndex_Some:
  "findIndex P xs = Some i \<Longrightarrow> i < length xs \<and> P (xs ! i) \<and> (\<forall>j<i. \<not> P (xs ! j))"
proof (induction xs arbitrary: i)
  case Nil
  then show ?case by simp
next
  case (Cons a as)
  show ?case
  proof (cases "P a")
    case True
    with Cons.prems show ?thesis by simp
  next
    case False
    with Cons.prems obtain k where k: "findIndex P as = Some k" and i: "i = Suc k"
      by (auto split: option.splits)
    from Cons.IH [OF k] False i show ?thesis
      by (auto simp: nth_Cons split: nat.splits)
  qed
qed

lemma findIndex_None: "findIndex P xs = None \<longleftrightarrow> (\<forall>a\<in>set xs. \<not> P a)"
  by (induction xs) (auto split: option.splits)

lemma find_findIndex:
  "find P xs = (case findIndex P xs of None \<Rightarrow> None | Some k \<Rightarrow> Some (xs ! k))"
  by (induction xs) (auto split: option.splits)


section \<open>The collision validator\<close>

lemma pushDown_result:
  "attempts \<le> maxAttempts \<Longrightarrow>
     \<exists>k. attempts + k \<le> maxAttempts \<and>
         pushDown ws w h px py attempts = (px, py + int k) \<and>
         (\<forall>j<k. hasCollision ws px (py + int j) w h) \<and>
         (attempts + k < maxAttempts \<longrightarrow> \<not> hasCollision ws px (py + int k) w h)"
proof (induction ws w h px py attempts rule: pushDown.induct)
  case (1 ws w h px py attempts)
  show ?case
  proof (cases "attempts < maxAttempts")
    case False
    then have "pushDown ws w h px py attempts = (px, py)"
      by (subst pushDown.simps) simp
    with False "1.prems" show ?thesis
      by (intro exI [of _ 0]) simp
  next
    case less: True
    show ?thesis
    proof (cases "hasCollision ws px py w h")
      case False
      with less have "pushDown ws w h px py attempts = (px, py)"
        by (subst pushDown.simps) simp
      with False less show ?thesis
        by (intro exI [of _ 0]) simp
    next
      case True
      from less have "Suc attempts \<le> maxAttempts" by simp
      from "1.IH" [OF less _ this] True obtain k where k: "Suc attempts + k \<le> maxAttempts"
        "pushDown ws w h px (py + 1) (Suc attempts) = (px, py + 1 + int k)"
        "\<forall>j<k. hasCollision ws px (py + 1 + int j) w h"
        "Suc attempts + k < maxAttempts \<longrightarrow> \<not> hasCollision ws px (py + 1 + int k) w h"
        by auto
      have step: "pushDown ws w h px py attempts = (px, py + int (Suc k))"
        using less True k(2) by (subst pushDown.simps) simp
      have before: "\<forall>j<Suc k. hasCollision ws px (py + int j) w h"
      proof (intro allI impI)
        fix j assume "j < Suc k"
        show "hasCollision ws px (py + int j) w h"
        proof (cases j)
          case 0
          with True show ?thesis by simp
        next
          case (Suc i)
          with \<open>j < Suc k\<close> k(3) have "hasCollision ws px (py + 1 + int i) w h" by simp
          with Suc show ?thesis by (simp add: add.assoc)
        qed
      qed
      from k(1,4) step before show ?thesis
        by (intro exI [of _ "Suc k"]) (simp add: add.assoc)
    qed
  qed
qed

text \<open>
  The widgets that \<open>validatePosition\<close> tests against, and the collision of a candidate
  rectangle with one of them, in the words of the specification: two rectangles intersect
  unless one is entirely to the left of, to the right of, above or below the other.
\<close>

definition othersThan :: "string option \<Rightarrow> widget list \<Rightarrow> widget list" where
  "othersThan excludeId ws = filter (\<lambda>wd. Some (wid wd) \<noteq> excludeId) ws"

definition collides :: "widget list \<Rightarrow> int \<Rightarrow> int \<Rightarrow> int \<Rightarrow> int \<Rightarrow> bool" where
  "collides ws px py w h =
     (\<exists>wd\<in>set ws. \<not> (px + w \<le> wx wd \<or> wx wd + ww wd \<le> px \<or> py + h \<le> wy wd \<or> wy wd + wh wd \<le> py))"

lemma hasCollision_collides: "hasCollision ws px py w h = collides ws px py w h"
  by (simp add: hasCollision_def collides_def rectsIntersect_def list_ex_iff)

text \<open>
  Claim C3, amended.  \<open>validatePosition\<close> clamps \<open>x\<close> to \<open>max 0 (min x (columns - w))\<close>, which
  lies in \<open>[0, columns - w]\<close> when the widget fits the grid, and \<open>y\<close> to \<open>max 0 y\<close>.  It then
  returns the clamped candidate moved down by \<open>k \<le> 100\<close> rows, where every candidate above
  the returned one collides with a widget other than the excluded one, and the returned
  one collides with none unless \<open>k = 100\<close>; a clamped candidate that collides with nothing
  is returned unchanged.  In the scenario the candidate \<open>(1, 0)\<close> of the 3-wide widget does
  intersect the widget at \<open>(3, 0)\<close> (it covers columns 1 to 3), so the drag commits \<open>(1, 2)\<close>.
\<close>

theorem validatePosition_pushes_down:
  "(let c = cols (gridSettings gm);
        px = max 0 (min x0 (c - w));
        py = max 0 y0;
        others = othersThan excludeId (widgets (state (sm gm)))
    in (w \<le> c \<longrightarrow> 0 \<le> px \<and> px \<le> c - w) \<and> 0 \<le> py \<and>
       (\<exists>k\<le>100. validatePosition gm x0 y0 w h excludeId = (px, py + int k) \<and>
                 (\<forall>j<k. collides others px (py + int j) w h) \<and>
                 (k < 100 \<longrightarrow> \<not> collides others px (py + int k) w h)) \<and>
       (\<not> collides others px py w h \<longrightarrow> validatePosition gm x0 y0 w h excludeId = (px, py))) \<and>
   map rectOf (widgets (state twoWidgets))
     = [\<lparr>rx = 0, ry = 0, rw = 3, rh = 2\<rparr>, \<lparr>rx = 3, ry = 0, rw = 3, rh = 2\<rparr>] \<and>
   rectsIntersect 1 0 3 2 3 0 3 2 \<and>
   rectsAfter (act (Drag ''a-1'' [((1, 0), (0, 0))] (1, 0)) (newGridManager twoWidgets))
     = Inr [\<lparr>rx = 1, ry = 2, rw = 3, rh = 2\<rparr>, \<lparr>rx = 3, ry = 0, rw = 3, rh = 2\<rparr>]"
proof (intro conjI)
  define px where "px = max 0 (min x0 (cols (gridSettings gm) - w))"
  define py where "py = max 0 y0"
  define others where "others = othersThan excludeId (widgets (state (sm gm)))"
  have vp: "validatePosition gm x0 y0 w h excludeId = pushDown others w h px py 0"
    by (simp add: validatePosition_def px_def py_def others_def othersThan_def)
  from pushDown_result [of 0 others w h px py]
  obtain k where k: "k \<le> 100" "pushDown others w h px py 0 = (px, py + int k)"
    "\<forall>j<k. collides others px (py + int j) w h"
    "k < 100 \<longrightarrow> \<not> collides others px (py + int k) w h"
    by (auto simp: maxAttempts_def hasCollision_collides)
  have unchanged: "\<not> collides others px py w h \<longrightarrow> pushDown others w h px py 0 = (px, py)"
    by (subst pushDown.simps) (simp add: maxAttempts_def hasCollision_collides)
  have bounds: "(w \<le> cols (gridSettings gm) \<longrightarrow> 0 \<le> px \<and> px \<le> cols (gridSettings gm) - w) \<and> 0 \<le> py"
    by (auto simp: px_def py_def)
  from k unchanged bounds
  show "let c = cols (gridSettings gm);
        px = max 0 (min x0 (c - w));
        py = max 0 y0;
        others = othersThan excludeId (widgets (state (sm gm)))
    in (w \<le> c \<longrightarrow> 0 \<le> px \<and> px \<le> c - w) \<and> 0 \<le> py \<and>
       (\<exists>k\<le>100. validatePosition gm x0 y0 w h excludeId = (px, py + int k) \<and>
                 (\<forall>j<k. collides others px (py + int j) w h) \<and>
                 (k < 100 \<longrightarrow> \<not> collides others px (py + int k) w h)) \<and>
       (\<not> collides others px py w h \<longrightarrow> validatePosition gm x0 y0 w h excludeId = (px, py))"
    unfolding Let_def vp px_def [symmetric] py_def [symmetric] others_def [symmetric]
    by blast
next
  show "map rectOf (widgets (state twoWidgets))
     = [\<lparr>rx = 0, ry = 0, rw = 3, rh = 2\<rparr>, \<lparr>rx = 3, ry = 0, rw = 3, rh = 2\<rparr>]"
    by code_simp
next
  show "rectsIntersect 1 0 3 2 3 0 3 2"
    by (simp add: rectsIntersect_def)
next
  show "rectsAfter (act (Drag ''a-1'' [((1, 0), (0, 0))] (1, 0)) (newGridManager twoWidgets))
     = Inr [\<lparr>rx = 1, ry = 2, rw = 3, rh = 2\<rparr>, \<lparr>rx = 3, ry = 0, rw = 3, rh = 2\<rparr>]"
    by code_simp
qed

theorem validatePosition_pushes_down_witness:
  "3 \<le> cols (gridSettings (newGridManager twoWidgets)) \<and>
   \<not> collides (othersThan (Some ''a-1'') (widgets (state (sm (newGridManager twoWidgets))))) 7 0 3 2 \<and>
   validatePosition (newGridManager twoWidgets) 7 0 3 2 (Some ''a-1'') = (7, 0)"
proof -
  have a: "cols (gridSettings (newGridManager twoWidgets)) = 12"
    by code_simp
  have b: "\<not> collides (othersThan (Some ''a-1'') (widgets (state (sm (newGridManager twoWidgets))))) 7 0 3 2"
    by code_simp
  from validatePosition_pushes_down [of "newGridManager twoWidgets" 7 3 0 "Some ''a-1''" 2] a b
  show ?thesis by (simp add: Let_def)
qed

text \<open>The drag of the scenario does not commit \<open>(1, 0)\<close>.\<close>

theorem drag_scenario_counterexample:
  "map rectOf (widgets (state twoWidgets))
     = [\<lparr>rx = 0, ry = 0, rw = 3, rh = 2\<rparr>, \<lparr>rx = 3, ry = 0, rw = 3, rh = 2\<rparr>] \<and>
   rectsAfter (act (Drag ''a-1'' [((1, 0), (0, 0))] (1, 0)) (newGridManager twoWidgets))
     \<noteq> Inr [\<lparr>rx = 1, ry = 0, rw = 3, rh = 2\<rparr>, \<lparr>rx = 3, ry = 0, rw = 3, rh = 2\<rparr>]"
  by code_simp




section \<open>Resize handles\<close>









section \<open>Defaults of addWidget\<close>

text \<open>
  Claim C6, amended.  \<open>addWidget\<close> appends one record and emits \<open>widget-added\<close> with it.  The
  record keeps the type, the config and, if supplied, the id of the caller; \<open>minimized\<close> is
  always \<open>false\<close>.  A missing \<open>w\<close> or \<open>h\<close> becomes 3 or 2, a supplied non-zero one is kept.
  When neither \<open>x\<close> nor \<open>y\<close> is supplied the position is the result of the empty-position
  search; when a non-zero \<open>x\<close> or \<open>y\<close> is supplied there is no search, the supplied
  coordinates are kept and a missing one is 0.
\<close>

theorem addWidget_defaults:
  "(let widget = fst (addWidget widgetData s)
    in snd (addWidget widgetData s) = emit (WidgetAdded widget) (pushWidget widget s) \<and>
       widgets (state (snd (addWidget widgetData s))) = widgets (state s) @ [widget] \<and>
       wtype widget = dtype widgetData \<and>
       wconfig widget = dconfig widgetData \<and>
       wminimized widget = False \<and>
       (\<forall>i. did widgetData = Some i \<longrightarrow> wid widget = i) \<and>
       (did widgetData = None \<longrightarrow> wid widget = generateWidgetId (state s) (dtype widgetData)) \<and>
       (dw widgetData = None \<longrightarrow> ww widget = 3) \<and>
       (\<forall>n. dw widgetData = Some n \<and> n \<noteq> 0 \<longrightarrow> ww widget = n) \<and>
       (dh widgetData = None \<longrightarrow> wh widget = 2) \<and>
       (\<forall>n. dh widgetData = Some n \<and> n \<noteq> 0 \<longrightarrow> wh widget = n) \<and>
       (dx widgetData = None \<and> dy widgetData = None \<longrightarrow>
          searches widgetData \<and>
          (wx widget, wy widget) = findEmptyPosition (state s) (ww widget) (wh widget)) \<and>
       ((\<exists>n. dx widgetData = Some n \<and> n \<noteq> 0) \<or> (\<exists>n. dy widgetData = Some n \<and> n \<noteq> 0) \<longrightarrow>
          \<not> searches widgetData \<and>
          wx widget = (case dx widgetData of None \<Rightarrow> 0 | Some n \<Rightarrow> n) \<and>
          wy widget = (case dy widgetData of None \<Rightarrow> 0 | Some n \<Rightarrow> n)))"
  by (auto simp: addWidget_def placedWidget_def newWidget_def searches_def falsy_def orDefault_def
      Let_def emit_def logEvent_def pushWidget_def split: option.splits)

theorem addWidget_defaults_witness:
  "dx (onlyType ''clock'') = None \<and> dy (onlyType ''clock'') = None \<and>
   rectOf (fst (addWidget (onlyType ''clock'') (managerOf getDefaultState)))
     = \<lparr>rx = 0, ry = 7, rw = 3, rh = 2\<rparr> \<and>
   dx ((onlyType ''clock'')\<lparr>dx := Some 4, dh := Some 5\<rparr>) = Some 4 \<and>
   rectOf (fst (addWidget ((onlyType ''clock'')\<lparr>dx := Some 4, dh := Some 5\<rparr>) (managerOf getDefaultState)))
     = \<lparr>rx = 4, ry = 0, rw = 3, rh = 5\<rparr>"
proof -
  let ?s = "managerOf getDefaultState"
  let ?d1 = "onlyType ''clock''"
  let ?d2 = "(onlyType ''clock'')\<lparr>dx := Some 4, dh := Some 5\<rparr>"
  have none: "dx ?d1 = None" "dy ?d1 = None" "dw ?d1 = None" "dh ?d1 = None"
    by (simp_all add: onlyType_def)
  have some: "dx ?d2 = Some 4" "dy ?d2 = None" "dw ?d2 = None" "dh ?d2 = Some 5"
    by (simp_all add: onlyType_def)
  have a: "findEmptyPosition (state ?s) 3 2 = (0, 7)"
    by code_simp
  from addWidget_defaults [of ?d1 ?s] none
  have "ww (fst (addWidget ?d1 ?s)) = 3" "wh (fst (addWidget ?d1 ?s)) = 2"
    "(wx (fst (addWidget ?d1 ?s)), wy (fst (addWidget ?d1 ?s)))
       = findEmptyPosition (state ?s) (ww (fst (addWidget ?d1 ?s))) (wh (fst (addWidget ?d1 ?s)))"
    by (simp_all add: Let_def)
  with a have first: "rectOf (fst (addWidget ?d1 ?s)) = \<lparr>rx = 0, ry = 7, rw = 3, rh = 2\<rparr>"
    by (simp add: rectOf_def)
  from addWidget_defaults [of ?d2 ?s] some
  have second: "rectOf (fst (addWidget ?d2 ?s)) = \<lparr>rx = 4, ry = 0, rw = 3, rh = 5\<rparr>"
    by (simp add: Let_def rectOf_def)
  from none some first second show ?thesis by simp
qed

text \<open>
  A supplied \<open>minimized: true\<close> is replaced by \<open>false\<close>, and a supplied position \<open>(0, 0)\<close>
  counts as not specified: the search runs and, on the default layout, places the widget
  at \<open>(0, 7)\<close>.
\<close>

theorem addWidget_supplied_counterexample:
  "wminimized (fst (addWidget ((onlyType ''clock'')\<lparr>dminimized := Some True\<rparr>)
                      (managerOf getDefaultState))) = False \<and>
   searches ((onlyType ''clock'')\<lparr>dx := Some 0, dy := Some 0\<rparr>) \<and>
   rectOf (fst (addWidget ((onlyType ''clock'')\<lparr>dx := Some 0, dy := Some 0\<rparr>)
                 (managerOf getDefaultState)))
     = \<lparr>rx = 0, ry = 7, rw = 3, rh = 2\<rparr>"
  by code_simp


section \<open>Bounds\<close>

text \<open>The bounds of the data model for one widget on a grid of \<open>c\<close> columns.\<close>

definition inBounds :: "int \<Rightarrow> widget \<Rightarrow> bool" where
  "inBounds c wd = (0 \<le> wx wd \<and> wx wd + ww wd \<le> c \<and> 1 \<le> ww wd \<and> 1 \<le> wh wd)"

text \<open>
  The end line of a rendered widget never parses: every pointer resize of a widget of the
  list ends in a call of \<open>updateWidget\<close> whose width and height are \<open>NaN\<close>.
\<close>

lemma parseInt_span: "parseInt (gridLineEnd n) = None"
  by (simp add: parseInt_def gridLineEnd_def isDigit_def)

lemma endResize_stores_NaN:
  assumes "resizeData gm = Some rd"
    and "findIndex (\<lambda>wd. wid wd = rdWidgetId rd) (widgets (state (sm gm))) = Some k"
  shows "\<exists>px py. endResize gm = Inl (StoresNaN (rdWidgetId rd) px py None None)"
  using assms
  by (simp add: endResize_def parseInt_span jsMinus_def Let_def split: option.splits)

text \<open>
  Claim C4.  In the two-widget scenario all widgets are inside the 12 columns.  A press on
  the E handle of \<open>a-1\<close> followed by a release, or a press on its S handle, a move by one
  row and a release, makes \<open>endResize\<close> parse the computed end lines \<^verbatim>\<open>span 3\<close> and
  \<^verbatim>\<open>span 2\<close> to \<open>NaN\<close> and commit \<open>{x: 0, y: 0, w: NaN, h: NaN}\<close>: after this committed
  operation the record has neither \<open>w \<ge> 1\<close> nor \<open>h \<ge> 1\<close> nor \<open>x + w \<le> columns\<close>.
\<close>

theorem resize_commits_nan:
  "list_all (inBounds (cols (grid (state twoWidgets)))) (widgets (state twoWidgets)) \<and>
   parseInt (gridLineStart 0) = Some 1 \<and> parseInt (gridLineEnd 3) = None \<and>
   act (Resize ''a-1'' HandleE [] (0, 0)) (newGridManager twoWidgets)
     = Inl (StoresNaN ''a-1'' (Some 0) (Some 0) None None) \<and>
   act (Resize ''a-1'' HandleS [((0, 0), (0, 1))] (0, 0)) (newGridManager twoWidgets)
     = Inl (StoresNaN ''a-1'' (Some 0) (Some 0) None None)"
  by code_simp

section \<open>What a drag changes\<close>

text \<open>The default layout once the clock module is loaded and its instance mounted.\<close>

definition clockMounted :: state_manager where
  "clockMounted =
     loadWidgetContent clockDefaultConfig (hd getDefaultWidgets) (managerOf getDefaultState)"

definition configOf :: "string \<Rightarrow> state_manager \<Rightarrow> config option option" where
  "configOf widgetId s = map_option wconfig (find (\<lambda>wd. wid wd = widgetId) (widgets (state s)))"

text \<open>
  Claim C10.  \<open>endDrag\<close> commits only \<open>{x, y}\<close> through \<open>moveWidget\<close>, but the
  \<open>widget-updated\<close> event of that commit runs the listener chain: the mounted clock
  instance merges the record's config into its own, which has the two further keys
  \<open>showDate\<close> and \<open>showSeconds\<close>, and the re-entrant \<open>updateWidget\<close> stores the result in the
  record.  The drag of \<open>clock-1\<close> therefore changes its config, whether the chain runs one
  round or six.
\<close>

theorem drag_overwrites_config:
  "configOf ''clock-1'' clockMounted
     = Some (Some [(''title'', ''Clock''), (''format'', ''24h''), (''showAnalog'', ''false''),
                   (''timezone'', ''local'')]) \<and>
   map_sum id (\<lambda>gm. configOf ''clock-1'' (sm gm))
     (act (Drag ''clock-1'' [((0, 9), (0, 0))] (0, 9)) (newGridManager clockMounted))
     = Inr (Some (Some [(''title'', ''Clock''), (''format'', ''24h''), (''showAnalog'', ''false''),
                        (''timezone'', ''local''), (''showDate'', ''true''),
                        (''showSeconds'', ''true'')])) \<and>
   map_sum id (\<lambda>gm. configOf ''clock-1'' (sm gm))
     (act (Drag ''clock-1'' [((0, 9), (0, 0))] (0, 9)) (newGridManager (clockMounted\<lparr>stack := 5\<rparr>)))
     = Inr (Some (Some [(''title'', ''Clock''), (''format'', ''24h''), (''showAnalog'', ''false''),
                        (''timezone'', ''local''), (''showDate'', ''true''),
                        (''showSeconds'', ''true'')]))"
  by code_simp

section \<open>Widget ids\<close>

definition ids :: "state_manager \<Rightarrow> string list" where
  "ids s = map wid (widgets (state s))"

lemma generateLoop_least:
  "\<exists>n. counter \<le> n \<and> generateLoop existingIds ty counter = widgetIdOf ty n \<and>
       widgetIdOf ty n \<notin> set existingIds \<and>
       (\<forall>k. counter \<le> k \<and> k < n \<longrightarrow> widgetIdOf ty k \<in> set existingIds)"
proof (induction existingIds ty counter rule: generateLoop.induct)
  case (1 existingIds ty counter)
  show ?case
  proof (cases "widgetIdOf ty counter \<in> set existingIds")
    case True
    from "1.IH" [OF True] obtain n where n: "Suc counter \<le> n"
      "generateLoop existingIds ty (Suc counter) = widgetIdOf ty n"
      "widgetIdOf ty n \<notin> set existingIds"
      "\<forall>k. Suc counter \<le> k \<and> k < n \<longrightarrow> widgetIdOf ty k \<in> set existingIds"
      by blast
    have "\<forall>k. counter \<le> k \<and> k < n \<longrightarrow> widgetIdOf ty k \<in> set existingIds"
    proof (intro allI impI)
      fix k assume k: "counter \<le> k \<and> k < n"
      show "widgetIdOf ty k \<in> set existingIds"
      proof (cases "k = counter")
        case True
        with \<open>widgetIdOf ty counter \<in> set existingIds\<close> show ?thesis by simp
      next
        case False
        with k n(4) show ?thesis by simp
      qed
    qed
    moreover have "generateLoop existingIds ty counter = widgetIdOf ty n"
      using True n(2) by (subst generateLoop.simps) simp
    moreover have "counter \<le> n" using n(1) by simp
    ultimately show ?thesis using n(3) by blast
  next
    case False
    then have "generateLoop existingIds ty counter = widgetIdOf ty counter"
      by (subst generateLoop.simps) simp
    with False show ?thesis by auto
  qed
qed








section \<open>Import and export\<close>

lemma generateWidgetId_nonempty: "generateWidgetId st ty \<noteq> []"
proof -
  from generateLoop_least [of 1 "map wid (widgets st)" ty]
  obtain n where "generateLoop (map wid (widgets st)) ty 1 = widgetIdOf ty n" by blast
  then show ?thesis by (simp add: generateWidgetId_def widgetIdOf_def)
qed

lemma those_map_Some: "those (map Some xs) = Some xs"
  by (induction xs) simp_all

lemma those_None: "None \<in> set xs \<Longrightarrow> those xs = None"
  by (induction xs) (auto split: option.splits)

lemma backfill_asJson: "wid wd \<noteq> [] \<Longrightarrow> backfill st (asJson wd) = wd"
  by (simp add: backfill_def asJson_def)

lemma backfill_id:
  "wid (backfill st given) \<noteq> [] \<and>
   (\<forall>i. iid given = Some i \<and> i \<noteq> [] \<longrightarrow> wid (backfill st given) = i) \<and>
   (iid given = None \<or> iid given = Some [] \<longrightarrow>
      wid (backfill st given) = generateWidgetId st (itype given))"
  by (auto simp: backfill_def generateWidgetId_nonempty split: option.splits)

definition layoutOf :: "widgets_field \<Rightarrow> layout_data" where
  "layoutOf field = \<lparr>lgrid = None, lwidgets = field, ltheme = None, lsettings = None,
                     lversion = None, lexportedAt = None\<rparr>"

text \<open>
  Claim C8, amended.  When \<open>data.widgets\<close> is missing or is not an array, \<open>importLayout\<close>
  returns \<open>false\<close>, emits \<open>import-error\<close> and leaves the state as it was; the same happens
  when it is an array with a \<open>null\<close> or \<open>undefined\<close> element.  When it is an array of
  widget objects, \<open>importLayout\<close> returns \<open>true\<close>, emits \<open>layout-imported\<close> with the layout and
  the state before the import as backup, takes grid, theme, settings and version from the
  layout (each is kept only where the layout lacks it), and replaces the widget list by
  the imported widgets, each with a non-empty id: its own when it has one, a generated one
  otherwise.
\<close>

theorem importLayout_validates:
  "(lwidgets layoutData = Missing \<or> (\<exists>v. lwidgets layoutData = NotArray v) \<longrightarrow>
      fst (importLayout layoutData s) = False \<and>
      state (snd (importLayout layoutData s)) = state s \<and>
      emitted (snd (importLayout layoutData s)) = emitted s @ [ImportError invalidLayout]) \<and>
   (\<forall>arr. lwidgets layoutData = WidgetArray arr \<and> None \<in> set arr \<longrightarrow>
      fst (importLayout layoutData s) = False \<and>
      state (snd (importLayout layoutData s)) = state s \<and>
      emitted (snd (importLayout layoutData s)) = emitted s @ [ImportError TypeError]) \<and>
   (\<forall>objects. lwidgets layoutData = WidgetArray (map Some objects) \<longrightarrow>
      fst (importLayout layoutData s) = True \<and>
      emitted (snd (importLayout layoutData s)) = emitted s @ [LayoutImported layoutData (state s)] \<and>
      (\<forall>g. lgrid layoutData = Some g \<longrightarrow> grid (state (snd (importLayout layoutData s))) = g) \<and>
      (lgrid layoutData = None \<longrightarrow>
         grid (state (snd (importLayout layoutData s))) = grid (state s)) \<and>
      (\<forall>t. ltheme layoutData = Some t \<longrightarrow> theme (state (snd (importLayout layoutData s))) = t) \<and>
      (ltheme layoutData = None \<longrightarrow>
         theme (state (snd (importLayout layoutData s))) = theme (state s)) \<and>
      (\<forall>f. lsettings layoutData = Some f \<longrightarrow>
         settings (state (snd (importLayout layoutData s))) = f) \<and>
      (lsettings layoutData = None \<longrightarrow>
         settings (state (snd (importLayout layoutData s))) = settings (state s)) \<and>
      (\<forall>v. lversion layoutData = Some v \<longrightarrow>
         version (state (snd (importLayout layoutData s))) = v) \<and>
      (lversion layoutData = None \<longrightarrow>
         version (state (snd (importLayout layoutData s))) = version (state s)) \<and>
      length (widgets (state (snd (importLayout layoutData s)))) = length objects \<and>
      (\<forall>k<length objects.
         let given = objects ! k; placed = widgets (state (snd (importLayout layoutData s))) ! k
         in wid placed \<noteq> [] \<and>
            (\<forall>i. iid given = Some i \<and> i \<noteq> [] \<longrightarrow> wid placed = i) \<and>
            (iid given = None \<or> iid given = Some [] \<longrightarrow>
               wid placed = generateWidgetId (state s) (itype given)) \<and>
            wtype placed = itype given \<and> wx placed = ix given \<and> wy placed = iy given \<and>
            ww placed = iw given \<and> wh placed = ih given \<and>
            wminimized placed = iminimized given \<and> wconfig placed = iconfig given))"
  (is "?invalid \<and> ?null \<and> ?array")
proof -
  have invalid: ?invalid
    by (auto simp: importLayout_def emit_def logEvent_def)
  have null: ?null
    by (simp add: importLayout_def emit_def logEvent_def those_None)
  have array: ?array
  proof (intro allI impI)
    fix objects
    assume arr: "lwidgets layoutData = WidgetArray (map Some objects)"
    then have imported: "importLayout layoutData s =
        (True, logEvent (LayoutImported layoutData (state s))
                 (s\<lparr>state := \<lparr>grid = orKeep (lgrid layoutData) (grid (state s)),
                               widgets = map (backfill (state s)) objects,
                               theme = orKeep (ltheme layoutData) (theme (state s)),
                               settings = orKeep (lsettings layoutData) (settings (state s)),
                               version = orKeep (lversion layoutData) (version (state s)),
                               exportedAt = (case lexportedAt layoutData of
                                               None \<Rightarrow> exportedAt (state s)
                                             | Some t \<Rightarrow> Some t)\<rparr>\<rparr>))"
      by (simp add: importLayout_def Let_def emit_def those_map_Some)
    have fields: "\<forall>k<length objects.
         let given = objects ! k; placed = map (backfill (state s)) objects ! k
         in wid placed \<noteq> [] \<and>
            (\<forall>i. iid given = Some i \<and> i \<noteq> [] \<longrightarrow> wid placed = i) \<and>
            (iid given = None \<or> iid given = Some [] \<longrightarrow>
               wid placed = generateWidgetId (state s) (itype given)) \<and>
            wtype placed = itype given \<and> wx placed = ix given \<and> wy placed = iy given \<and>
            ww placed = iw given \<and> wh placed = ih given \<and>
            wminimized placed = iminimized given \<and> wconfig placed = iconfig given"
    proof (intro allI impI)
      fix k assume "k < length objects"
      then have "map (backfill (state s)) objects ! k = backfill (state s) (objects ! k)" by simp
      with backfill_id [of "state s" "objects ! k"]
      show "let given = objects ! k; placed = map (backfill (state s)) objects ! k
         in wid placed \<noteq> [] \<and>
            (\<forall>i. iid given = Some i \<and> i \<noteq> [] \<longrightarrow> wid placed = i) \<and>
            (iid given = None \<or> iid given = Some [] \<longrightarrow>
               wid placed = generateWidgetId (state s) (itype given)) \<and>
            wtype placed = itype given \<and> wx placed = ix given \<and> wy placed = iy given \<and>
            ww placed = iw given \<and> wh placed = ih given \<and>
            wminimized placed = iminimized given \<and> wconfig placed = iconfig given"
        by (simp add: Let_def backfill_def)
    qed
    show "fst (importLayout layoutData s) = True \<and>
      emitted (snd (importLayout layoutData s)) = emitted s @ [LayoutImported layoutData (state s)] \<and>
      (\<forall>g. lgrid layoutData = Some g \<longrightarrow> grid (state (snd (importLayout layoutData s))) = g) \<and>
      (lgrid layoutData = None \<longrightarrow>
         grid (state (snd (importLayout layoutData s))) = grid (state s)) \<and>
      (\<forall>t. ltheme layoutData = Some t \<longrightarrow> theme (state (snd (importLayout layoutData s))) = t) \<and>
      (ltheme layoutData = None \<longrightarrow>
         theme (state (snd (importLayout layoutData s))) = theme (state s)) \<and>
      (\<forall>f. lsettings layoutData = Some f \<longrightarrow>
         settings (state (snd (importLayout layoutData s))) = f) \<and>
      (lsettings layoutData = None \<longrightarrow>
         settings (state (snd (importLayout layoutData s))) = settings (state s)) \<and>
      (\<forall>v. lversion layoutData = Some v \<longrightarrow>
         version (state (snd (importLayout layoutData s))) = v) \<and>
      (lversion layoutData = None \<longrightarrow>
         version (state (snd (importLayout layoutData s))) = version (state s)) \<and>
      length (widgets (state (snd (importLayout layoutData s)))) = length objects \<and>
      (\<forall>k<length objects.
         let given = objects ! k; placed = widgets (state (snd (importLayout layoutData s))) ! k
         in wid placed \<noteq> [] \<and>
            (\<forall>i. iid given = Some i \<and> i \<noteq> [] \<longrightarrow> wid placed = i) \<and>
            (iid given = None \<or> iid given = Some [] \<longrightarrow>
               wid placed = generateWidgetId (state s) (itype given)) \<and>
            wtype placed = itype given \<and> wx placed = ix given \<and> wy placed = iy given \<and>
            ww placed = iw given \<and> wh placed = ih given \<and>
            wminimized placed = iminimized given \<and> wconfig placed = iconfig given)"
      unfolding imported using fields
      by (simp add: logEvent_def orKeep_def)
  qed
  show ?thesis
    by (rule conjI [OF invalid conjI [OF null array]])
qed

theorem importLayout_validates_witness:
  "importLayout (layoutOf (NotArray ''not-a-list'')) (managerOf getDefaultState)
     = (False, (managerOf getDefaultState)\<lparr>emitted := [ImportError invalidLayout]\<rparr>) \<and>
   fst (importLayout
          ((layoutOf (WidgetArray (map Some [(asJson (defaultWidget ''x'' ''clock'' 0 0 3 2 []))\<lparr>iid := None\<rparr>])))
             \<lparr>ltheme := Some ''dark''\<rparr>)
          (managerOf getDefaultState)) = True \<and>
   theme (state (snd (importLayout
          ((layoutOf (WidgetArray (map Some [(asJson (defaultWidget ''x'' ''clock'' 0 0 3 2 []))\<lparr>iid := None\<rparr>])))
             \<lparr>ltheme := Some ''dark''\<rparr>)
          (managerOf getDefaultState)))) = ''dark'' \<and>
   map wid (widgets (state (snd (importLayout
          ((layoutOf (WidgetArray (map Some [(asJson (defaultWidget ''x'' ''clock'' 0 0 3 2 []))\<lparr>iid := None\<rparr>])))
             \<lparr>ltheme := Some ''dark''\<rparr>)
          (managerOf getDefaultState)))))
     = [generateWidgetId getDefaultState ''clock'']"
proof -
  let ?bad = "layoutOf (NotArray ''not-a-list'')"
  let ?good = "(layoutOf (WidgetArray (map Some [(asJson (defaultWidget ''x'' ''clock'' 0 0 3 2 []))\<lparr>iid := None\<rparr>])))
             \<lparr>ltheme := Some ''dark''\<rparr>"
  let ?s = "managerOf getDefaultState"
  have bad: "lwidgets ?bad = Missing \<or> (\<exists>v. lwidgets ?bad = NotArray v)"
    by (simp add: layoutOf_def)
  from importLayout_validates [of ?bad ?s, THEN conjunct1] bad
  have "fst (importLayout ?bad ?s) = False \<and> state (snd (importLayout ?bad ?s)) = state ?s \<and>
      emitted (snd (importLayout ?bad ?s)) = emitted ?s @ [ImportError invalidLayout]"
    by (rule mp)
  moreover have "mounted (snd (importLayout ?bad ?s)) = mounted ?s"
    "stack (snd (importLayout ?bad ?s)) = stack ?s"
    by (simp_all add: importLayout_def layoutOf_def emit_def logEvent_def)
  ultimately have first: "importLayout ?bad ?s = (False, ?s\<lparr>emitted := [ImportError invalidLayout]\<rparr>)"
    by (cases "importLayout ?bad ?s") (simp add: managerOf_def state_manager.equality)
  have good: "lwidgets ?good = WidgetArray (map Some [(asJson (defaultWidget ''x'' ''clock'' 0 0 3 2 []))\<lparr>iid := None\<rparr>])"
    "ltheme ?good = Some ''dark''"
    by (simp_all add: layoutOf_def)
  note inst = importLayout_validates [of ?good ?s, THEN conjunct2, THEN conjunct2, THEN spec,
      THEN mp, OF good(1)]
  from inst good(2) have second: "fst (importLayout ?good ?s) = True"
    "theme (state (snd (importLayout ?good ?s))) = ''dark''"
    by blast+
  from inst have "length (widgets (state (snd (importLayout ?good ?s)))) = 1"
    "wid (widgets (state (snd (importLayout ?good ?s))) ! 0) = generateWidgetId (state ?s) ''clock''"
    by (simp_all add: Let_def asJson_def defaultWidget_def)
  then have third: "map wid (widgets (state (snd (importLayout ?good ?s))))
      = [generateWidgetId getDefaultState ''clock'']"
    by (cases "widgets (state (snd (importLayout ?good ?s)))") (simp_all add: managerOf_def)
  from first second third show ?thesis by (intro conjI)
qed

text \<open>An array with a \<open>null\<close> element is rejected although \<open>data.widgets\<close> is an array.\<close>

theorem null_element_counterexample:
  "importLayout (layoutOf (WidgetArray [Some (asJson (defaultWidget ''x'' ''clock'' 0 0 3 2 [])), None]))
     (managerOf getDefaultState)
     = (False, (managerOf getDefaultState)\<lparr>emitted := [ImportError TypeError]\<rparr>)"
  by (simp add: importLayout_def layoutOf_def emit_def logEvent_def managerOf_def)

lemma roundtrip_widgets:
  assumes "[] \<notin> set (ids s)"
  shows "importLayout (fst (exportLayout now s)) (snd (exportLayout now s))
           = (True,
              logEvent (LayoutImported (fst (exportLayout now s)) (state s))
                ((logEvent (LayoutExported (fst (exportLayout now s))) s)
                   \<lparr>state := (state s)\<lparr>exportedAt := Some now\<rparr>\<rparr>))"
proof -
  from assms have "\<forall>wd\<in>set (widgets (state s)). wid wd \<noteq> []"
    unfolding ids_def by (metis image_eqI set_map)
  then have restored: "map (backfill (state s)) (map asJson (widgets (state s))) = widgets (state s)"
    by (simp add: map_idI backfill_asJson)
  have "those (map (\<lambda>wd. Some (asJson wd)) (widgets (state s))) = Some (map asJson (widgets (state s)))"
    using those_map_Some [of "map asJson (widgets (state s))"] by (simp add: comp_def)
  with restored show ?thesis
    by (simp add: importLayout_def exportLayout_def Let_def emit_def logEvent_def orKeep_def)
qed

text \<open>
  Claim C9, amended.  In every state whose widget ids are non-empty strings,
  \<open>importLayout(exportLayout())\<close> returns \<open>true\<close> and the widget list afterwards is the
  widget list before: the same ids, positions, sizes and configs, widget for widget.  The
  rest of the state is unchanged too, except that it now carries the export time stamp.
\<close>

theorem export_import_roundtrip:
  assumes "[] \<notin> set (ids s)"
  shows "(let exported = exportLayout now s;
              imported = importLayout (fst exported) (snd exported)
          in fst imported = True \<and>
             widgets (state (snd imported)) = widgets (state s) \<and>
             state (snd imported) = (state s)\<lparr>exportedAt := Some now\<rparr>)"
  using roundtrip_widgets [OF assms, of now]
  by (simp add: Let_def logEvent_def)

theorem export_import_roundtrip_witness:
  "[] \<notin> set (ids (managerOf getDefaultState)) \<and>
   (let exported = exportLayout ''2024-01-01T00:00:00.000Z'' (managerOf getDefaultState);
        imported = importLayout (fst exported) (snd exported)
    in fst imported = True \<and>
       widgets (state (snd imported)) = widgets (state (managerOf getDefaultState)))"
proof -
  have a: "[] \<notin> set (ids (managerOf getDefaultState))"
    by (simp add: ids_def managerOf_def getDefaultState_def getDefaultWidgets_def defaultWidget_def)
  from export_import_roundtrip [OF a, of "''2024-01-01T00:00:00.000Z''"] a
  show ?thesis by (simp add: Let_def)
qed

text \<open>
  A widget added with the id \<open>''\<close> of the caller keeps that id in the list; the import
  treats the empty id as missing and replaces it by a generated one.
\<close>

theorem empty_id_roundtrip_counterexample:
  "(let s = snd (addWidget ((onlyType ''a'')\<lparr>did := Some []\<rparr>) (managerOf emptyGrid));
        exported = exportLayout ''2024-01-01T00:00:00.000Z'' s;
        imported = importLayout (fst exported) (snd exported)
    in map wid (widgets (state s)) = [[]] \<and>
       fst imported = True \<and>
       map wid (widgets (state (snd imported))) = [''a-1''] \<and>
       widgets (state (snd imported)) \<noteq> widgets (state s))"
  by code_simp

section \<open>The empty-position search\<close>

























end
